theory Spec2Isabelle
  imports Complex_Main
begin

section \<open>JavaScript values, errors and asynchronous programs\<close>

text \<open>
  The application is untyped JavaScript. Values that come from outside (JSON bodies,
  thrown errors) are modelled by one datatype. Strings are lists of code units in the
  range U+0000..U+00FF; numbers are the rational value of the parsed double.
\<close>

datatype jsval =
    JUndefined
  | JNull
  | JBool bool
  | JNum rat
  | JStr string
  | JArr "jsval list"
  | JObj "(string \<times> jsval) list"

text \<open>A thrown error object: its \<open>name\<close> and its \<open>message\<close> property.\<close>

datatype js_error = JsError (err_name: string) (message: jsval)

definition new_Error :: "string \<Rightarrow> js_error" where
  "new_Error msg = JsError ''Error'' (JStr msg)"

text \<open>The TypeError of a property read on \<open>undefined\<close> or \<open>null\<close> (V8 wording).\<close>

definition cannot_read :: "string \<Rightarrow> string \<Rightarrow> js_error" where
  "cannot_read what key =
     JsError ''TypeError''
       (JStr (''Cannot read properties of '' @ what @ '' (reading '' @ [CHR 0x27] @ key @ [CHR 0x27] @ '')''))"

definition not_a_function :: "string \<Rightarrow> js_error" where
  "not_a_function what = JsError ''TypeError'' (JStr (what @ '' is not a function''))"

text \<open>ToBoolean.\<close>

fun truthy :: "jsval \<Rightarrow> bool" where
  "truthy JUndefined = False"
| "truthy JNull = False"
| "truthy (JBool b) = b"
| "truthy (JNum n) = (n \<noteq> 0)"
| "truthy (JStr s) = (s \<noteq> [])"
| "truthy (JArr xs) = True"
| "truthy (JObj kvs) = True"

text \<open>The operator \<open>a || b\<close> on values.\<close>

definition js_or :: "jsval \<Rightarrow> jsval \<Rightarrow> jsval" where
  "js_or a b = (if truthy a then a else b)"

text \<open>
  Reading a data property \<open>v.key\<close>. On \<open>undefined\<close> and \<open>null\<close> the read throws; an
  object yields its own property or \<open>undefined\<close>; strings and arrays have \<open>length\<close>.
\<close>

fun get_member :: "jsval \<Rightarrow> string \<Rightarrow> js_error + jsval" where
  "get_member JUndefined key = Inl (cannot_read ''undefined'' key)"
| "get_member JNull key = Inl (cannot_read ''null'' key)"
| "get_member (JObj kvs) key = Inr (case map_of kvs key of None \<Rightarrow> JUndefined | Some v \<Rightarrow> v)"
| "get_member (JStr s) key = Inr (if key = ''length'' then JNum (of_nat (length s)) else JUndefined)"
| "get_member (JArr xs) key = Inr (if key = ''length'' then JNum (of_nat (length xs)) else JUndefined)"
| "get_member (JBool b) key = Inr JUndefined"
| "get_member (JNum n) key = Inr JUndefined"

text \<open>
  An \<open>async\<close> function is a state transformer that either returns a value or throws.
  The outcome of every call to the outside world is a parameter of the model.
\<close>

type_synonym ('s, 'a) prog = "'s \<Rightarrow> (js_error + 'a) \<times> 's"

definition ret :: "'a \<Rightarrow> ('s, 'a) prog" where
  "ret x = (\<lambda>s. (Inr x, s))"

definition throw :: "js_error \<Rightarrow> ('s, 'a) prog" where
  "throw e = (\<lambda>s. (Inl e, s))"

text \<open>
  \<open>await p\<close> for a promise of the outside world that settles as \<open>r\<close>; also the
  evaluation of an expression that yields a value or throws, without touching the state.
\<close>

definition await :: "js_error + 'a \<Rightarrow> ('s, 'a) prog" where
  "await r = (\<lambda>s. (r, s))"

definition bnd :: "('s, 'a) prog \<Rightarrow> ('a \<Rightarrow> ('s, 'b) prog) \<Rightarrow> ('s, 'b) prog" where
  "bnd m f = (\<lambda>s. case m s of (Inl e, s') \<Rightarrow> (Inl e, s') | (Inr x, s') \<Rightarrow> f x s')"

definition then_do :: "('s, unit) prog \<Rightarrow> ('s, 'a) prog \<Rightarrow> ('s, 'a) prog" where
  "then_do m k = bnd m (\<lambda>_. k)"

definition try_catch :: "('s, 'a) prog \<Rightarrow> (js_error \<Rightarrow> ('s, 'a) prog) \<Rightarrow> ('s, 'a) prog" where
  "try_catch m h = (\<lambda>s. case m s of (Inl e, s') \<Rightarrow> h e s' | (Inr x, s') \<Rightarrow> (Inr x, s'))"

text \<open>\<open>try { m } finally { fin }\<close>: \<open>fin\<close> always runs; if it throws, its error wins.\<close>

definition try_finally :: "('s, 'a) prog \<Rightarrow> ('s, unit) prog \<Rightarrow> ('s, 'a) prog" where
  "try_finally m fin =
     (\<lambda>s. case m s of (r, s') \<Rightarrow>
        (case fin s' of (Inl e, s'') \<Rightarrow> (Inl e, s'') | (Inr u, s'') \<Rightarrow> (r, s'')))"

definition try_catch_finally ::
  "('s, 'a) prog \<Rightarrow> (js_error \<Rightarrow> ('s, 'a) prog) \<Rightarrow> ('s, unit) prog \<Rightarrow> ('s, 'a) prog" where
  "try_catch_finally m h fin = try_finally (try_catch m h) fin"

section \<open>The React application (App.js)\<close>

subsection \<open>State and effects\<close>

text \<open>The user object resolved by \<open>getCurrentUser\<close>.\<close>

record auth_user =
  userId :: string
  username :: string

text \<open>The session resolved by \<open>fetchAuthSession\<close>: \<open>tokens\<close> and \<open>idToken\<close> are optional.\<close>

datatype auth_tokens = AuthTokens (idToken: "string option")

datatype auth_session = AuthSession (tokens: "auth_tokens option")

text \<open>The \<open>useState\<close> cells of the component.\<close>

record app_state =
  user :: "auth_user option"
  tasks :: jsval
  loading :: bool
  error :: jsval
  email :: string
  password :: string
  isSignUp :: bool
  needsConfirmation :: bool
  confirmationCode :: string
  newTaskDescription :: string
  filter_state :: string

text \<open>What the component does to the outside world, in order.\<close>

datatype event =
    PreventDefault
  | ConsoleError string js_error
  | ConsoleLog string
  | FetchAuthSession bool
  | GetCurrentUser
  | SignIn string string
  | HttpFetch (url: string) (http_method: string) (headers: "(string \<times> jsval) list") (body: "jsval option")
  | WindowConfirm string

record world =
  app :: app_state
  trace :: "event list"

definition emit :: "event \<Rightarrow> (world, unit) prog" where
  "emit ev = (\<lambda>w. (Inr (), w\<lparr>trace := trace w @ [ev]\<rparr>))"

definition console_error :: "string \<Rightarrow> js_error \<Rightarrow> (world, unit) prog" where
  "console_error label err = emit (ConsoleError label err)"

definition console_log :: "string \<Rightarrow> (world, unit) prog" where
  "console_log label = emit (ConsoleLog label)"

definition setUser :: "auth_user option \<Rightarrow> (world, unit) prog" where
  "setUser u = (\<lambda>w. (Inr (), w\<lparr>app := (app w)\<lparr>user := u\<rparr>\<rparr>))"

definition setTasks :: "jsval \<Rightarrow> (world, unit) prog" where
  "setTasks ts = (\<lambda>w. (Inr (), w\<lparr>app := (app w)\<lparr>tasks := ts\<rparr>\<rparr>))"

definition setLoading :: "bool \<Rightarrow> (world, unit) prog" where
  "setLoading b = (\<lambda>w. (Inr (), w\<lparr>app := (app w)\<lparr>loading := b\<rparr>\<rparr>))"

definition setError :: "jsval \<Rightarrow> (world, unit) prog" where
  "setError m = (\<lambda>w. (Inr (), w\<lparr>app := (app w)\<lparr>error := m\<rparr>\<rparr>))"

definition setNeedsConfirmation :: "bool \<Rightarrow> (world, unit) prog" where
  "setNeedsConfirmation b = (\<lambda>w. (Inr (), w\<lparr>app := (app w)\<lparr>needsConfirmation := b\<rparr>\<rparr>))"

definition setNewTaskDescription :: "string \<Rightarrow> (world, unit) prog" where
  "setNewTaskDescription d = (\<lambda>w. (Inr (), w\<lparr>app := (app w)\<lparr>newTaskDescription := d\<rparr>\<rparr>))"

subsection \<open>Token refresh\<close>

definition fetchAuthSession :: "bool \<Rightarrow> js_error + auth_session \<Rightarrow> (world, auth_session) prog" where
  "fetchAuthSession forceRefresh outcome = then_do (emit (FetchAuthSession forceRefresh)) (await outcome)"

text \<open>
  \<^verbatim>\<open>try { const { tokens } = await fetchAuthSession({ forceRefresh: true });
        return tokens?.idToken?.toString();
      } catch (err) { console.error('Error getting token:', err); return null; }\<close>
\<close>

definition getAuthToken :: "js_error + auth_session \<Rightarrow> (world, jsval) prog" where
  "getAuthToken session =
     try_catch
       (bnd (fetchAuthSession True session) (\<lambda>s.
          ret (case tokens s of
                 None \<Rightarrow> JUndefined
               | Some t \<Rightarrow> (case idToken t of None \<Rightarrow> JUndefined | Some jwt \<Rightarrow> JStr jwt))))
       (\<lambda>err. then_do (console_error ''Error getting token:'' err) (ret JNull))"

subsection \<open>String methods\<close>

text \<open>White space and line terminators of ECMAScript in the range U+0000..U+00FF.\<close>

definition is_js_whitespace :: "char \<Rightarrow> bool" where
  "is_js_whitespace c \<longleftrightarrow>
     c \<in> set [CHR 0x09, CHR 0x0A, CHR 0x0B, CHR 0x0C, CHR 0x0D, CHR 0x20, CHR 0xA0]"

text \<open>\<open>String.prototype.trim\<close>.\<close>

definition js_trim :: "string \<Rightarrow> string" where
  "js_trim s = rev (dropWhile is_js_whitespace (rev (dropWhile is_js_whitespace s)))"

text \<open>
  \<open>String.prototype.toLowerCase\<close> on U+0000..U+00FF: A..Z and the capital letters
  U+00C0..U+00DE (without the multiplication sign U+00D7) move up by 32.
\<close>

definition lower_char :: "char \<Rightarrow> char" where
  "lower_char c =
     (let n = (of_char c :: nat)
      in if (65 \<le> n \<and> n \<le> 90) \<or> (192 \<le> n \<and> n \<le> 222 \<and> n \<noteq> 215)
         then char_of (n + 32) else c)"

definition toLowerCase :: "string \<Rightarrow> string" where
  "toLowerCase s = map lower_char s"

text \<open>\<open>v.toLowerCase()\<close> on an arbitrary value.\<close>

fun call_toLowerCase :: "jsval \<Rightarrow> js_error + string" where
  "call_toLowerCase (JStr s) = Inr (toLowerCase s)"
| "call_toLowerCase JUndefined = Inl (cannot_read ''undefined'' ''toLowerCase'')"
| "call_toLowerCase JNull = Inl (cannot_read ''null'' ''toLowerCase'')"
| "call_toLowerCase v = Inl (not_a_function ''task.Status.toLowerCase'')"

text \<open>\<open>String.prototype.split\<close> with a separator of one code unit.\<close>

fun split_from :: "char \<Rightarrow> string \<Rightarrow> string \<Rightarrow> string list" where
  "split_from sep cur [] = [cur]"
| "split_from sep cur (c # cs) =
     (if c = sep then cur # split_from sep [] cs else split_from sep (cur @ [c]) cs)"

definition js_split :: "char \<Rightarrow> string \<Rightarrow> string list" where
  "js_split sep s = split_from sep [] s"

text \<open>Array indexing \<open>xs[i]\<close>: \<open>undefined\<close> (here \<open>None\<close>) out of range.\<close>

definition js_index :: "'a list \<Rightarrow> nat \<Rightarrow> 'a option" where
  "js_index xs i = (if i < length xs then Some (xs ! i) else None)"

text \<open>A template literal hole \<open>${x}\<close> for \<open>x\<close> of type string or undefined.\<close>

definition interpolate :: "string option \<Rightarrow> string" where
  "interpolate x = (case x of None \<Rightarrow> ''undefined'' | Some s \<Rightarrow> s)"

subsection \<open>Loading the task list\<close>

text \<open>A \<open>Response\<close>: its status and what \<open>response.json()\<close> settles as.\<close>

record response =
  status :: nat
  json_body :: "js_error + jsval"

definition response_ok :: "response \<Rightarrow> bool" where
  "response_ok r \<longleftrightarrow> 200 \<le> status r \<and> status r \<le> 299"

text \<open>
  One round trip of an operation: how \<open>fetchAuthSession\<close> settles and how \<open>fetch\<close>
  settles (rejected by the network, or resolved with a response).
\<close>

type_synonym round_trip = "(js_error + auth_session) \<times> (js_error + response)"

definition fetch ::
  "string \<Rightarrow> string \<Rightarrow> (string \<times> jsval) list \<Rightarrow> jsval option \<Rightarrow> js_error + response
     \<Rightarrow> (world, response) prog" where
  "fetch u m hs b outcome = then_do (emit (HttpFetch u m hs b)) (await outcome)"

definition get_app :: "(world, app_state) prog" where
  "get_app = (\<lambda>w. (Inr (app w), w))"

text \<open>\<open>fetchTasks\<close> (App.js, lines 61-82). \<open>API_ENDPOINT\<close> is a string or undefined.\<close>

definition fetchTasks :: "string option \<Rightarrow> round_trip \<Rightarrow> (world, unit) prog" where
  "fetchTasks API_ENDPOINT rt =
     then_do (setLoading True) (
     then_do (setError (JStr '''')) (
     try_catch_finally
       (bnd (getAuthToken (fst rt)) (\<lambda>token.
        bnd (fetch (interpolate API_ENDPOINT @ ''/tasks'') ''GET''
               [(''Authorization'', token)] None (snd rt)) (\<lambda>response.
        then_do (if \<not> response_ok response then throw (new_Error ''Failed to fetch tasks'')
                 else ret ()) (
        bnd (await (json_body response)) (\<lambda>data.
        bnd (await (get_member data ''Items'')) (\<lambda>items.
        setTasks (js_or items (JArr []))))))))
       (\<lambda>err. setError (message err))
       (setLoading False)))"

subsection \<open>Signing in\<close>

record next_step =
  signInStep :: string

record sign_in_output =
  isSignedIn :: bool
  nextStep :: next_step

text \<open>\<open>checkUser\<close> (lines 42-49).\<close>

definition checkUser :: "js_error + auth_user \<Rightarrow> (world, unit) prog" where
  "checkUser outcome =
     try_catch
       (bnd (then_do (emit GetCurrentUser) (await outcome)) (\<lambda>currentUser.
        setUser (Some currentUser)))
       (\<lambda>err. setUser None)"

definition signIn :: "string \<Rightarrow> string \<Rightarrow> js_error + sign_in_output \<Rightarrow> (world, sign_in_output) prog" where
  "signIn u p outcome = then_do (emit (SignIn u p)) (await outcome)"

text \<open>
  \<open>handleSignIn\<close> (lines 149-177). The parameters after \<open>skipPrevent\<close> say how
  \<open>signIn\<close> and, if it is reached, \<open>getCurrentUser\<close> settle.
\<close>

definition handleSignIn ::
  "bool \<Rightarrow> js_error + sign_in_output \<Rightarrow> js_error + auth_user \<Rightarrow> (world, unit) prog" where
  "handleSignIn skipPrevent signed current =
     bnd get_app (\<lambda>st.
     then_do (if \<not> skipPrevent then emit PreventDefault else ret ()) (
     then_do (setError (JStr '''')) (
     then_do (setLoading True) (
     try_catch_finally
       (bnd (signIn (email st) (password st) signed) (\<lambda>r.
        then_do (console_log ''Sign in result:'') (
        if isSignedIn r then checkUser current
        else if signInStep (nextStep r) = ''CONFIRM_SIGN_UP'' then
          then_do (setNeedsConfirmation True)
            (setError (JStr ''Your account is not confirmed. Please enter the confirmation code sent to your email.''))
        else setError (JStr ''Sign in incomplete. Please try again.''))))
       (\<lambda>err.
          then_do (console_error ''Sign in error:'' err)
            (setError (js_or (message err)
               (JStr ''Failed to sign in. Please check your credentials.''))))
       (setLoading False)))))"

text \<open>
  Which screen the component renders (lines 281-334): the task view when \<open>user\<close> is
  set, otherwise the confirmation form when \<open>needsConfirmation\<close>, otherwise sign-in.
\<close>

datatype session_state = Anonymous | PendingConfirmation | Authenticated

definition session_of :: "app_state \<Rightarrow> session_state" where
  "session_of st =
     (if user st \<noteq> None then Authenticated
      else if needsConfirmation st then PendingConfirmation else Anonymous)"

subsection \<open>Mutating the task list\<close>

text \<open>\<open>createTask\<close> (lines 189-216).\<close>

definition createTask :: "string option \<Rightarrow> round_trip \<Rightarrow> round_trip \<Rightarrow> (world, unit) prog" where
  "createTask API_ENDPOINT rt reload =
     then_do (emit PreventDefault) (
     bnd get_app (\<lambda>st.
     if \<not> truthy (JStr (js_trim (newTaskDescription st))) then ret ()
     else
       then_do (setLoading True) (
       then_do (setError (JStr '''')) (
       try_catch_finally
         (bnd (getAuthToken (fst rt)) (\<lambda>token.
          bnd (fetch (interpolate API_ENDPOINT @ ''/tasks'') ''POST''
                 [(''Authorization'', token), (''Content-Type'', JStr ''application/json'')]
                 (Some (JObj [(''Description'', JStr (newTaskDescription st))])) (snd rt)) (\<lambda>response.
          then_do (if \<not> response_ok response then throw (new_Error ''Failed to create task'')
                   else ret ()) (
          then_do (setNewTaskDescription '''') (
          fetchTasks API_ENDPOINT reload)))))
         (\<lambda>err. setError (message err))
         (setLoading False)))))"

text \<open>\<open>updateTaskStatus\<close> (lines 218-241).\<close>

definition updateTaskStatus ::
  "string option \<Rightarrow> string option \<Rightarrow> string \<Rightarrow> round_trip \<Rightarrow> round_trip \<Rightarrow> (world, unit) prog" where
  "updateTaskStatus API_ENDPOINT taskId newStatus rt reload =
     then_do (setLoading True) (
     then_do (setError (JStr '''')) (
     try_catch_finally
       (bnd (getAuthToken (fst rt)) (\<lambda>token.
        bnd (fetch (interpolate API_ENDPOINT @ ''/tasks/'' @ interpolate taskId) ''PUT''
               [(''Authorization'', token), (''Content-Type'', JStr ''application/json'')]
               (Some (JObj [(''Status'', JStr newStatus)])) (snd rt)) (\<lambda>response.
        then_do (if \<not> response_ok response then throw (new_Error ''Failed to update task'')
                 else ret ()) (
        fetchTasks API_ENDPOINT reload))))
       (\<lambda>err. setError (message err))
       (setLoading False)))"

definition window_confirm :: "string \<Rightarrow> bool \<Rightarrow> (world, bool) prog" where
  "window_confirm msg answer = then_do (emit (WindowConfirm msg)) (ret answer)"

text \<open>\<open>deleteTask\<close> (lines 243-266); \<open>answer\<close> is what the user replies to the prompt.\<close>

definition deleteTask ::
  "string option \<Rightarrow> string option \<Rightarrow> bool \<Rightarrow> round_trip \<Rightarrow> round_trip \<Rightarrow> (world, unit) prog" where
  "deleteTask API_ENDPOINT taskId answer rt reload =
     bnd (window_confirm ''Are you sure you want to delete this task?'' answer) (\<lambda>confirmed.
     if \<not> confirmed then ret ()
     else
       then_do (setLoading True) (
       then_do (setError (JStr '''')) (
       try_catch_finally
         (bnd (getAuthToken (fst rt)) (\<lambda>token.
          bnd (fetch (interpolate API_ENDPOINT @ ''/tasks/'' @ interpolate taskId) ''DELETE''
                 [(''Authorization'', token)] None (snd rt)) (\<lambda>response.
          then_do (if \<not> response_ok response then throw (new_Error ''Failed to delete task'')
                   else ret ()) (
          fetchTasks API_ENDPOINT reload))))
         (\<lambda>err. setError (message err))
         (setLoading False))))"

subsection \<open>Filtering and task identifiers\<close>

text \<open>\<open>Array.prototype.filter\<close> with a callback that may throw.\<close>

fun array_filter :: "(jsval \<Rightarrow> js_error + bool) \<Rightarrow> jsval list \<Rightarrow> js_error + jsval list" where
  "array_filter p [] = Inr []"
| "array_filter p (x # xs) =
     (case p x of
        Inl e \<Rightarrow> Inl e
      | Inr b \<Rightarrow>
          (case array_filter p xs of
             Inl e \<Rightarrow> Inl e
           | Inr ys \<Rightarrow> Inr (if b then x # ys else ys)))"

fun call_filter :: "(jsval \<Rightarrow> js_error + bool) \<Rightarrow> jsval \<Rightarrow> js_error + jsval" where
  "call_filter p (JArr xs) = map_sum id JArr (array_filter p xs)"
| "call_filter p JUndefined = Inl (cannot_read ''undefined'' ''filter'')"
| "call_filter p JNull = Inl (cannot_read ''null'' ''filter'')"
| "call_filter p v = Inl (not_a_function ''tasks.filter'')"

text \<open>The callback \<open>task => task.Status.toLowerCase() === filter.toLowerCase()\<close>.\<close>

definition status_matches :: "string \<Rightarrow> jsval \<Rightarrow> js_error + bool" where
  "status_matches f task =
     (case get_member task ''Status'' of
        Inl e \<Rightarrow> Inl e
      | Inr s \<Rightarrow>
          (case call_toLowerCase s of
             Inl e \<Rightarrow> Inl e
           | Inr l \<Rightarrow> Inr (l = toLowerCase f)))"

text \<open>\<open>getFilteredTasks\<close> (lines 268-271).\<close>

definition getFilteredTasks :: "app_state \<Rightarrow> js_error + jsval" where
  "getFilteredTasks st =
     (if filter_state st = ''all'' then Inr (tasks st)
      else call_filter (status_matches (filter_state st)) (tasks st))"

text \<open>\<open>getTaskId\<close> (lines 277-279): \<open>sk.split('#')[1]\<close>.\<close>

fun getTaskId :: "jsval \<Rightarrow> js_error + string option" where
  "getTaskId (JStr s) = Inr (js_index (js_split (CHR ''#'') s) 1)"
| "getTaskId JUndefined = Inl (cannot_read ''undefined'' ''split'')"
| "getTaskId JNull = Inl (cannot_read ''null'' ''split'')"
| "getTaskId v = Inl (not_a_function ''sk.split'')"

text \<open>
  The click handlers of a task card (lines 416 and 424):
  \<open>() => updateTaskStatus(getTaskId(task.SK), 'Completed')\<close> and
  \<open>() => deleteTask(getTaskId(task.SK))\<close>.
\<close>

definition complete_click ::
  "string option \<Rightarrow> jsval \<Rightarrow> round_trip \<Rightarrow> round_trip \<Rightarrow> (world, unit) prog" where
  "complete_click API_ENDPOINT task rt reload =
     bnd (await (get_member task ''SK'')) (\<lambda>sk.
     bnd (await (getTaskId sk)) (\<lambda>taskId.
     updateTaskStatus API_ENDPOINT taskId ''Completed'' rt reload))"

definition delete_click ::
  "string option \<Rightarrow> jsval \<Rightarrow> bool \<Rightarrow> round_trip \<Rightarrow> round_trip \<Rightarrow> (world, unit) prog" where
  "delete_click API_ENDPOINT task answer rt reload =
     bnd (await (get_member task ''SK'')) (\<lambda>sk.
     bnd (await (getTaskId sk)) (\<lambda>taskId.
     deleteTask API_ENDPOINT taskId answer rt reload))"

section \<open>The plain-script page (second source file)\<close>

text \<open>
  The script keeps its state in the document: the value of the input
  \<open>task-description\<close> and the children of the element \<open>task-list\<close>. Calls to the
  Amplify library, the prompt and the console are recorded in order.
\<close>

datatype list_node = NoTasksPara | ErrorPara jsval | TaskItem jsval

datatype page_event =
    CurrentSession
  | ApiGet string string
  | ApiPost string string jsval
  | ApiDel string string jsval
  | Confirm string
  | PageConsoleError string js_error

record page =
  task_description :: string
  task_list :: "list_node list"
  calls :: "page_event list"

definition page_emit :: "page_event \<Rightarrow> (page, unit) prog" where
  "page_emit ev = (\<lambda>p. (Inr (), p\<lparr>calls := calls p @ [ev]\<rparr>))"

definition set_task_list :: "list_node list \<Rightarrow> (page, unit) prog" where
  "set_task_list ns = (\<lambda>p. (Inr (), p\<lparr>task_list := ns\<rparr>))"

definition append_task_list :: "list_node \<Rightarrow> (page, unit) prog" where
  "append_task_list n = (\<lambda>p. (Inr (), p\<lparr>task_list := task_list p @ [n]\<rparr>))"

definition set_task_description :: "string \<Rightarrow> (page, unit) prog" where
  "set_task_description v = (\<lambda>p. (Inr (), p\<lparr>task_description := v\<rparr>))"

definition get_page :: "(page, page) prog" where
  "get_page = (\<lambda>p. (Inr p, p))"

text \<open>
  \<open>custom_header\<close> (lines 26-37); the parameter is how
  \<open>(await Amplify.Auth.currentSession()).getIdToken().getJwtToken()\<close> settles.
\<close>

definition custom_header :: "js_error + string \<Rightarrow> (page, jsval) prog" where
  "custom_header session =
     try_catch
       (bnd (then_do (page_emit CurrentSession) (await session)) (\<lambda>jwt.
        ret (JObj [(''Authorization'', JStr jwt)])))
       (\<lambda>e. ret (JObj []))"

text \<open>The body of the \<open>forEach\<close> callback reads \<open>task.Status\<close> and appends one item.\<close>

fun for_each_task :: "jsval list \<Rightarrow> (page, unit) prog" where
  "for_each_task [] = ret ()"
| "for_each_task (task # rest) =
     bnd (await (get_member task ''Status'')) (\<lambda>s.
     then_do (append_task_list (TaskItem task)) (for_each_task rest))"

fun call_forEach :: "jsval \<Rightarrow> (page, unit) prog" where
  "call_forEach (JArr xs) = for_each_task xs"
| "call_forEach JUndefined = throw (cannot_read ''undefined'' ''forEach'')"
| "call_forEach JNull = throw (cannot_read ''null'' ''forEach'')"
| "call_forEach v = throw (not_a_function ''tasks.forEach'')"

text \<open>\<open>displayTasks\<close> (lines 128-169).\<close>

definition displayTasks :: "jsval \<Rightarrow> (page, unit) prog" where
  "displayTasks ts =
     then_do (set_task_list []) (
     bnd (await (get_member ts ''length'')) (\<lambda>n.
     if n = JNum 0 then set_task_list [NoTasksPara]
     else call_forEach ts))"

text \<open>\<open>fetchTasks\<close> of the script (lines 118-126).\<close>

definition page_fetchTasks :: "js_error + jsval \<Rightarrow> (page, unit) prog" where
  "page_fetchTasks got =
     try_catch
       (bnd (then_do (page_emit (ApiGet ''TodoAppApi'' ''/tasks'')) (await got)) (\<lambda>ts.
        displayTasks ts))
       (\<lambda>err.
          then_do (page_emit (PageConsoleError ''Error fetching tasks:'' err))
            (set_task_list [ErrorPara (message err)]))"

text \<open>\<open>createTask\<close> of the script (lines 171-182).\<close>

definition page_createTask :: "js_error + jsval \<Rightarrow> js_error + jsval \<Rightarrow> (page, unit) prog" where
  "page_createTask posted got =
     bnd get_page (\<lambda>p.
     if \<not> truthy (JStr (task_description p)) then ret ()
     else
       try_catch
         (bnd (then_do (page_emit (ApiPost ''TodoAppApi'' ''/tasks''
                  (JObj [(''Description'', JStr (task_description p))]))) (await posted)) (\<lambda>r.
          then_do (set_task_description '''') (page_fetchTasks got)))
         (\<lambda>err. page_emit (PageConsoleError ''Error creating task:'' err)))"

text \<open>
  \<open>deleteTask\<close> of the script (lines 193-202). The path is the template
  \<open>/tasks/${taskId}\<close>; the event keeps the prefix and the interpolated value.
\<close>

definition page_deleteTask ::
  "jsval \<Rightarrow> bool \<Rightarrow> js_error + jsval \<Rightarrow> js_error + jsval \<Rightarrow> (page, unit) prog" where
  "page_deleteTask taskId answer deleted got =
     bnd (then_do (page_emit (Confirm ''Are you sure you want to delete this task?''))
            (ret answer)) (\<lambda>confirmed.
     if \<not> confirmed then ret ()
     else
       try_catch
         (bnd (then_do (page_emit (ApiDel ''TodoAppApi'' ''/tasks/'' taskId)) (await deleted)) (\<lambda>r.
          page_fetchTasks got))
         (\<lambda>err. page_emit (PageConsoleError ''Error deleting task:'' err)))"

section \<open>Notions used in the statements\<close>

text \<open>The initial values of the \<open>useState\<close> cells (App.js, lines 20-36).\<close>

definition initial_state :: app_state where
  "initial_state =
     \<lparr>user = None, tasks = JArr [], loading = False, error = JStr '''', email = '''',
      password = '''', isSignUp = False, needsConfirmation = False, confirmationCode = '''',
      newTaskDescription = '''', filter_state = ''all''\<rparr>"

definition initial_world :: world where
  "initial_world = \<lparr>app = initial_state, trace = []\<rparr>"

text \<open>What \<open>getAuthToken\<close> returns and what it does, as functions of the provider's answer.\<close>

definition token_of :: "js_error + auth_session \<Rightarrow> jsval" where
  "token_of s =
     (case s of
        Inl e \<Rightarrow> JNull
      | Inr a \<Rightarrow>
          (case tokens a of
             None \<Rightarrow> JUndefined
           | Some t \<Rightarrow> (case idToken t of None \<Rightarrow> JUndefined | Some jwt \<Rightarrow> JStr jwt)))"

definition token_trace :: "js_error + auth_session \<Rightarrow> event list" where
  "token_trace s =
     FetchAuthSession True #
     (case s of Inl e \<Rightarrow> [ConsoleError ''Error getting token:'' e] | Inr a \<Rightarrow> [])"


definition load_result :: "js_error + response \<Rightarrow> js_error + jsval" where
  "load_result f =
     (case f of
        Inl e \<Rightarrow> Inl e
      | Inr r \<Rightarrow>
          if \<not> response_ok r then Inl (new_Error ''Failed to fetch tasks'')
          else (case json_body r of
                  Inl e \<Rightarrow> Inl e
                | Inr data \<Rightarrow>
                    (case get_member data ''Items'' of
                       Inl e \<Rightarrow> Inl e
                     | Inr items \<Rightarrow> Inr (js_or items (JArr [])))))"


text \<open>
  Equality of strings up to case, letter by letter: two code units are the same letter
  when they are equal or one is the capital of the other.
\<close>

definition is_upper :: "char \<Rightarrow> bool" where
  "is_upper c \<longleftrightarrow>
     (let n = (of_char c :: nat)
      in (65 \<le> n \<and> n \<le> 90) \<or> (192 \<le> n \<and> n \<le> 222 \<and> n \<noteq> 215))"

definition same_letter :: "char \<Rightarrow> char \<Rightarrow> bool" where
  "same_letter a b \<longleftrightarrow>
     a = b \<or> (is_upper a \<and> (of_char b :: nat) = of_char a + 32)
           \<or> (is_upper b \<and> (of_char a :: nat) = of_char b + 32)"

definition equal_ignoring_case :: "string \<Rightarrow> string \<Rightarrow> bool" where
  "equal_ignoring_case s t = list_all2 same_letter s t"

text \<open>A cached task: a value whose \<open>Status\<close> is a string.\<close>

definition is_task :: "jsval \<Rightarrow> bool" where
  "is_task t = (case get_member t ''Status'' of Inr (JStr s) \<Rightarrow> True | _ \<Rightarrow> False)"

definition has_status :: "string \<Rightarrow> jsval \<Rightarrow> bool" where
  "has_status x t =
     (case get_member t ''Status'' of Inr (JStr s) \<Rightarrow> equal_ignoring_case s x | _ \<Rightarrow> False)"

text \<open>
  The \<open>#\<close>-separated components of a sort key: the text before the first \<open>#\<close>, then
  the components of what follows it.
\<close>

function hash_components :: "string \<Rightarrow> string list" where
  "hash_components s =
     (if CHR ''#'' \<in> set s
      then takeWhile (\<lambda>c. c \<noteq> CHR ''#'') s #
           hash_components (tl (dropWhile (\<lambda>c. c \<noteq> CHR ''#'') s))
      else [s])"
  by pat_completeness auto
termination
proof (relation "measure length")
  show "wf (measure length)" by simp
next
  fix s :: string
  assume "CHR ''#'' \<in> set s"
  then have "dropWhile (\<lambda>c. c \<noteq> CHR ''#'') s \<noteq> []" by simp
  moreover have "length (dropWhile (\<lambda>c. c \<noteq> CHR ''#'') s) \<le> length s"
    by (rule length_dropWhile_le)
  ultimately show "(tl (dropWhile (\<lambda>c. c \<noteq> CHR ''#'') s), s) \<in> measure length"
    by (cases "dropWhile (\<lambda>c. c \<noteq> CHR ''#'') s") auto
qed

declare hash_components.simps [simp del]

text \<open>Concrete inputs for the examples.\<close>

definition example_api :: "string option" where
  "example_api = Some ''https://api.example.com''"

definition signed_in :: "js_error + auth_session" where
  "signed_in = Inr (AuthSession (Some (AuthTokens (Some ''jwt''))))"

definition no_session :: "js_error + auth_session" where
  "no_session = Inl (new_Error ''No current user'')"

definition network_down :: "js_error + response" where
  "network_down = Inl (JsError ''TypeError'' (JStr ''Failed to fetch''))"

definition responded :: "nat \<Rightarrow> jsval \<Rightarrow> js_error + response" where
  "responded n b = Inr \<lparr>status = n, json_body = Inr b\<rparr>"

definition milk_task :: jsval where
  "milk_task =
     JObj [(''SK'', JStr ''TASK#42''), (''Description'', JStr ''buy milk''),
           (''Status'', JStr ''Pending'')]"

definition done_task :: jsval where
  "done_task =
     JObj [(''SK'', JStr ''TASK#7''), (''Description'', JStr ''call home''),
           (''Status'', JStr ''COMPLETED'')]"

definition unkeyed_task :: jsval where
  "unkeyed_task = JObj [(''SK'', JStr ''TASK42''), (''Status'', JStr ''Pending'')]"

definition milk_world :: world where
  "milk_world = initial_world\<lparr>app := initial_state\<lparr>newTaskDescription := ''buy milk''\<rparr>\<rparr>"

definition unconfirmed :: "js_error + sign_in_output" where
  "unconfirmed = Inr \<lparr>isSignedIn = False, nextStep = \<lparr>signInStep = ''CONFIRM_SIGN_UP''\<rparr>\<rparr>"

section \<open>Verified properties\<close>

lemmas prog_defs = ret_def throw_def await_def bnd_def then_do_def try_catch_def
  try_finally_def try_catch_finally_def

lemmas effect_defs = emit_def console_error_def console_log_def setUser_def setTasks_def
  setLoading_def setError_def setNeedsConfirmation_def setNewTaskDescription_def
  fetchAuthSession_def fetch_def get_app_def window_confirm_def signIn_def

lemmas page_defs = page_emit_def set_task_list_def append_task_list_def
  set_task_description_def get_page_def

lemmas example_defs = example_api_def signed_in_def no_session_def network_down_def
  responded_def milk_task_def done_task_def unkeyed_task_def milk_world_def unconfirmed_def
  initial_world_def initial_state_def

subsection \<open>What each operation computes\<close>

lemma getAuthToken_eq:
  "getAuthToken s w = (Inr (token_of s), w\<lparr>trace := trace w @ token_trace s\<rparr>)"
  by (cases s) (simp_all add: getAuthToken_def token_of_def token_trace_def prog_defs effect_defs
      split: option.splits)

lemma fetchTasks_eq:
  "fetchTasks api rt w =
     (Inr (),
      w\<lparr>app := (case load_result (snd rt) of
                  Inl e \<Rightarrow> (app w)\<lparr>loading := False, error := message e\<rparr>
                | Inr ts \<Rightarrow> (app w)\<lparr>loading := False, error := JStr '''', tasks := ts\<rparr>),
        trace := trace w @ token_trace (fst rt) @
          [HttpFetch (interpolate api @ ''/tasks'') ''GET''
             [(''Authorization'', token_of (fst rt))] None]\<rparr>)"
  by (simp add: fetchTasks_def getAuthToken_eq load_result_def prog_defs effect_defs
      split: sum.splits)


lemma updateTaskStatus_eq:
  "updateTaskStatus api tid ns rt reload w =
     (let w1 = w\<lparr>trace := trace w @ token_trace (fst rt) @
                 [HttpFetch (interpolate api @ ''/tasks/'' @ interpolate tid) ''PUT''
                    [(''Authorization'', token_of (fst rt)),
                     (''Content-Type'', JStr ''application/json'')]
                    (Some (JObj [(''Status'', JStr ns)]))]\<rparr>
      in case snd rt of
           Inl e \<Rightarrow> (Inr (), w1\<lparr>app := (app w)\<lparr>loading := False, error := message e\<rparr>\<rparr>)
         | Inr r \<Rightarrow>
             if \<not> response_ok r
             then (Inr (), w1\<lparr>app := (app w)\<lparr>loading := False,
                                      error := JStr ''Failed to update task''\<rparr>\<rparr>)
             else (Inr (), snd (fetchTasks api reload w1)))"
  by (simp add: updateTaskStatus_def fetchTasks_eq getAuthToken_eq new_Error_def prog_defs
      effect_defs Let_def split: sum.splits)

lemma deleteTask_eq:
  "deleteTask api tid True rt reload w =
     (let w1 = w\<lparr>trace := trace w @
                 WindowConfirm ''Are you sure you want to delete this task?'' #
                 token_trace (fst rt) @
                 [HttpFetch (interpolate api @ ''/tasks/'' @ interpolate tid) ''DELETE''
                    [(''Authorization'', token_of (fst rt))] None]\<rparr>
      in case snd rt of
           Inl e \<Rightarrow> (Inr (), w1\<lparr>app := (app w)\<lparr>loading := False, error := message e\<rparr>\<rparr>)
         | Inr r \<Rightarrow>
             if \<not> response_ok r
             then (Inr (), w1\<lparr>app := (app w)\<lparr>loading := False,
                                      error := JStr ''Failed to delete task''\<rparr>\<rparr>)
             else (Inr (), snd (fetchTasks api reload w1)))"
  by (simp add: deleteTask_def fetchTasks_eq getAuthToken_eq new_Error_def prog_defs
      effect_defs Let_def split: sum.splits)

lemma deleteTask_declined:
  "deleteTask api tid False rt reload w =
     (Inr (), w\<lparr>trace := trace w @ [WindowConfirm ''Are you sure you want to delete this task?'']\<rparr>)"
  by (simp add: deleteTask_def prog_defs effect_defs)

lemma all_dropWhile: "(\<forall>x\<in>set (dropWhile P s). P x) \<longleftrightarrow> (\<forall>x\<in>set s. P x)"
  by (induction s) auto

lemma js_trim_empty_iff: "js_trim s = [] \<longleftrightarrow> (\<forall>c\<in>set s. is_js_whitespace c)"
  by (simp add: js_trim_def all_dropWhile)

lemma createTask_blank:
  assumes "js_trim (newTaskDescription (app w)) = []"
  shows "createTask api rt reload w = (Inr (), w\<lparr>trace := trace w @ [PreventDefault]\<rparr>)"
  using assms by (simp add: createTask_def prog_defs effect_defs)

lemma createTask_eq:
  assumes "js_trim (newTaskDescription (app w)) \<noteq> []"
  shows "createTask api rt reload w =
     (let w1 = w\<lparr>trace := trace w @ PreventDefault # token_trace (fst rt) @
                 [HttpFetch (interpolate api @ ''/tasks'') ''POST''
                    [(''Authorization'', token_of (fst rt)),
                     (''Content-Type'', JStr ''application/json'')]
                    (Some (JObj [(''Description'', JStr (newTaskDescription (app w)))]))]\<rparr>
      in case snd rt of
           Inl e \<Rightarrow> (Inr (), w1\<lparr>app := (app w)\<lparr>loading := False, error := message e\<rparr>\<rparr>)
         | Inr r \<Rightarrow>
             if \<not> response_ok r
             then (Inr (), w1\<lparr>app := (app w)\<lparr>loading := False,
                                      error := JStr ''Failed to create task''\<rparr>\<rparr>)
             else (Inr (), snd (fetchTasks api reload
                      (w1\<lparr>app := (app w)\<lparr>newTaskDescription := ''''\<rparr>\<rparr>))))"
  using assms
  by (simp add: createTask_def fetchTasks_eq getAuthToken_eq new_Error_def prog_defs
      effect_defs Let_def split: sum.splits)

subsection \<open>Strings: lower case and splitting\<close>

lemma takeWhile_until: "x \<notin> set cur \<Longrightarrow> takeWhile (\<lambda>c. c \<noteq> x) (cur @ x # cs) = cur"
  by (induction cur) auto

lemma dropWhile_until: "x \<notin> set cur \<Longrightarrow> dropWhile (\<lambda>c. c \<noteq> x) (cur @ x # cs) = x # cs"
  by (induction cur) auto

lemma takeWhile_absent: "x \<notin> set r \<Longrightarrow> takeWhile (\<lambda>c. c \<noteq> x) r = r"
  by (induction r) auto

lemma of_char_lt: "(of_char c :: nat) < 256"
  by (cases c) simp

lemma lower_char_eq_iff: "lower_char a = lower_char b \<longleftrightarrow> same_letter a b"
proof -
  have inj: "\<And>x y :: char. (of_char x :: nat) = of_char y \<longleftrightarrow> x = y" by simp
  have la: "is_upper a \<Longrightarrow> (of_char (lower_char a) :: nat) = of_char a + 32"
    using of_char_lt[of a] by (auto simp: lower_char_def is_upper_def Let_def)
  have lb: "is_upper b \<Longrightarrow> (of_char (lower_char b) :: nat) = of_char b + 32"
    using of_char_lt[of b] by (auto simp: lower_char_def is_upper_def Let_def)
  have na: "\<not> is_upper a \<Longrightarrow> lower_char a = a"
    by (auto simp: lower_char_def is_upper_def Let_def)
  have nb: "\<not> is_upper b \<Longrightarrow> lower_char b = b"
    by (auto simp: lower_char_def is_upper_def Let_def)
  have up32: "\<And>c d. is_upper c \<Longrightarrow> (of_char d :: nat) = of_char c + 32 \<Longrightarrow> \<not> is_upper d"
    by (auto simp: is_upper_def Let_def)
  show ?thesis
  proof (cases "is_upper a"; cases "is_upper b")
    assume ua: "is_upper a" and ub: "is_upper b"
    have "lower_char a = lower_char b \<longleftrightarrow> (of_char (lower_char a) :: nat) = of_char (lower_char b)"
      by simp
    also have "\<dots> \<longleftrightarrow> a = b" using la[OF ua] lb[OF ub] by simp
    also have "\<dots> \<longleftrightarrow> same_letter a b" using ua ub up32 by (auto simp: same_letter_def)
    finally show ?thesis .
  next
    assume ua: "is_upper a" and ub: "\<not> is_upper b"
    have "lower_char a = lower_char b \<longleftrightarrow> (of_char (lower_char a) :: nat) = of_char b"
      using nb[OF ub] inj by metis
    also have "\<dots> \<longleftrightarrow> (of_char b :: nat) = of_char a + 32" using la[OF ua] by auto
    also have "\<dots> \<longleftrightarrow> same_letter a b" using ua ub up32 by (auto simp: same_letter_def)
    finally show ?thesis .
  next
    assume ua: "\<not> is_upper a" and ub: "is_upper b"
    have "lower_char a = lower_char b \<longleftrightarrow> (of_char a :: nat) = of_char (lower_char b)"
      using na[OF ua] inj by metis
    also have "\<dots> \<longleftrightarrow> (of_char a :: nat) = of_char b + 32" using lb[OF ub] by auto
    also have "\<dots> \<longleftrightarrow> same_letter a b" using ua ub up32 by (auto simp: same_letter_def)
    finally show ?thesis .
  next
    assume ua: "\<not> is_upper a" and ub: "\<not> is_upper b"
    then show ?thesis using na nb by (auto simp: same_letter_def)
  qed
qed

lemma toLowerCase_eq_iff: "toLowerCase s = toLowerCase t \<longleftrightarrow> equal_ignoring_case s t"
  unfolding toLowerCase_def equal_ignoring_case_def
proof (induction s arbitrary: t)
  case Nil
  then show ?case by auto
next
  case (Cons a s)
  then show ?case by (cases t) (auto simp: lower_char_eq_iff)
qed

lemma array_filter_tasks:
  assumes "\<forall>t\<in>set ts. is_task t"
  shows "array_filter (status_matches x) ts = Inr (filter (has_status x) ts)"
  using assms
proof (induction ts)
  case Nil
  then show ?case by simp
next
  case (Cons t ts)
  from Cons.prems obtain s where s: "get_member t ''Status'' = Inr (JStr s)"
    by (auto simp: is_task_def split: sum.splits jsval.splits)
  have "status_matches x t = Inr (has_status x t)"
    using s by (simp add: status_matches_def has_status_def toLowerCase_eq_iff)
  with Cons show ?case by simp
qed

lemma split_from_components:
  "CHR ''#'' \<notin> set cur \<Longrightarrow> split_from (CHR ''#'') cur s = hash_components (cur @ s)"
proof (induction s arbitrary: cur)
  case Nil
  then show ?case by (simp add: hash_components.simps)
next
  case (Cons c cs)
  show ?case
  proof (cases "c = CHR ''#''")
    case True
    have "split_from (CHR ''#'') cur (c # cs) = cur # hash_components cs"
      using True Cons.IH [of "[]"] by simp
    moreover have "hash_components (cur @ c # cs) = cur # hash_components cs"
      using True Cons.prems
      by (subst hash_components.simps) (simp add: takeWhile_until dropWhile_until)
    ultimately show ?thesis by simp
  next
    case False
    then show ?thesis using Cons.IH [of "cur @ [c]"] Cons.prems by simp
  qed
qed

lemma js_split_components: "js_split (CHR ''#'') s = hash_components s"
  using split_from_components [of "[]" s] by (simp add: js_split_def)

lemma second_component:
  assumes "CHR ''#'' \<in> set sk"
  shows "js_index (hash_components sk) 1 =
     Some (takeWhile (\<lambda>c. c \<noteq> CHR ''#'') (tl (dropWhile (\<lambda>c. c \<noteq> CHR ''#'') sk)))"
proof -
  let ?rest = "tl (dropWhile (\<lambda>c. c \<noteq> CHR ''#'') sk)"
  have "hash_components sk = takeWhile (\<lambda>c. c \<noteq> CHR ''#'') sk # hash_components ?rest"
    using assms by (subst hash_components.simps) simp
  moreover have "hash_components ?rest \<noteq> []
      \<and> hd (hash_components ?rest) = takeWhile (\<lambda>c. c \<noteq> CHR ''#'') ?rest"
    by (subst (1 2) hash_components.simps) (simp add: takeWhile_absent)
  ultimately show ?thesis
    by (cases "hash_components ?rest") (simp_all add: js_index_def)
qed

lemma no_second_component:
  "CHR ''#'' \<notin> set sk \<Longrightarrow> js_index (hash_components sk) 1 = None"
  by (subst hash_components.simps) (simp add: js_index_def)

lemma complete_click_request:
  assumes "get_member task ''SK'' = Inr (JStr sk)"
  shows "fst (complete_click api task rt reload w) = Inr ()
    \<and> (\<exists>rest. trace (snd (complete_click api task rt reload w)) =
          trace w @ token_trace (fst rt) @
          HttpFetch (interpolate api @ ''/tasks/'' @ interpolate (js_index (hash_components sk) 1))
            ''PUT''
            [(''Authorization'', token_of (fst rt)), (''Content-Type'', JStr ''application/json'')]
            (Some (JObj [(''Status'', JStr ''Completed'')])) # rest)"
  using assms
  by (cases "snd rt")
     (simp_all add: complete_click_def js_split_components updateTaskStatus_eq fetchTasks_eq
        prog_defs Let_def)

lemma delete_click_request:
  assumes "get_member task ''SK'' = Inr (JStr sk)"
  shows "fst (delete_click api task True rt reload w) = Inr ()
    \<and> (\<exists>rest. trace (snd (delete_click api task True rt reload w)) =
          trace w @ WindowConfirm ''Are you sure you want to delete this task?'' #
          token_trace (fst rt) @
          HttpFetch (interpolate api @ ''/tasks/'' @ interpolate (js_index (hash_components sk) 1))
            ''DELETE'' [(''Authorization'', token_of (fst rt))] None # rest)"
  using assms
  by (cases "snd rt")
     (simp_all add: delete_click_def js_split_components deleteTask_eq fetchTasks_eq
        prog_defs Let_def)

subsection \<open>Token refresh never throws\<close>

text \<open>
  C1. When the identity provider call fails with any error \<open>e\<close>, \<open>getAuthToken\<close>
  returns normally with \<open>null\<close>: it only calls the provider and logs to the console, and
  leaves every state cell of the component (in particular the error message) as it was.
  Likewise \<open>custom_header\<close> returns normally with the empty header object \<open>{}\<close>.
\<close>

theorem token_refresh_failure_is_swallowed:
  "getAuthToken (Inl e) w =
     (Inr JNull,
      w\<lparr>trace := trace w @ [FetchAuthSession True, ConsoleError ''Error getting token:'' e]\<rparr>)
   \<and> app (snd (getAuthToken (Inl e) w)) = app w
   \<and> custom_header (Inl e) p = (Inr (JObj []), p\<lparr>calls := calls p @ [CurrentSession]\<rparr>)"
  by (simp add: getAuthToken_def custom_header_def page_emit_def prog_defs effect_defs)

subsection \<open>Failed mutations\<close>




subsection \<open>Signing in to an unconfirmed account\<close>

text \<open>
  C3. When the provider resolves a sign-in with \<open>isSignedIn = false\<close> and the next
  step \<open>CONFIRM_SIGN_UP\<close>, \<open>handleSignIn\<close> sets \<open>needsConfirmation\<close> and a non-empty
  error message, does not call \<open>getCurrentUser\<close> and leaves \<open>user\<close> as it was: from a
  state without a user the component shows the confirmation form, never the task view.
\<close>

theorem unconfirmed_sign_in_awaits_confirmation:
  assumes "\<not> isSignedIn r" and "signInStep (nextStep r) = ''CONFIRM_SIGN_UP''"
  shows "handleSignIn skipPrevent (Inr r) current w =
       (Inr (),
        w\<lparr>app := (app w)\<lparr>error := JStr ''Your account is not confirmed. Please enter the confirmation code sent to your email.'',
                          loading := False, needsConfirmation := True\<rparr>,
          trace := trace w @ (if skipPrevent then [] else [PreventDefault]) @
            [SignIn (email (app w)) (password (app w)), ConsoleLog ''Sign in result:'']\<rparr>)
    \<and> needsConfirmation (app (snd (handleSignIn skipPrevent (Inr r) current w)))
    \<and> truthy (error (app (snd (handleSignIn skipPrevent (Inr r) current w))))
    \<and> user (app (snd (handleSignIn skipPrevent (Inr r) current w))) = user (app w)
    \<and> (user (app w) = None \<longrightarrow>
         session_of (app (snd (handleSignIn skipPrevent (Inr r) current w))) = PendingConfirmation)"
  using assms
  by (simp add: handleSignIn_def session_of_def prog_defs effect_defs)

text \<open>
  C3 at the initial state of the component.
\<close>

theorem unconfirmed_sign_in_awaits_confirmation_witness:
  "user (app initial_world) = None
   \<and> session_of (app (snd (handleSignIn False unconfirmed (Inl (new_Error ''not reached''))
        initial_world))) = PendingConfirmation
   \<and> user (app (snd (handleSignIn False unconfirmed (Inl (new_Error ''not reached''))
        initial_world))) = None"
  using unconfirmed_sign_in_awaits_confirmation
    [where r = "\<lparr>isSignedIn = False, nextStep = \<lparr>signInStep = ''CONFIRM_SIGN_UP''\<rparr>\<rparr>"
       and skipPrevent = False and current = "Inl (new_Error ''not reached'')"
       and w = initial_world]
  by (simp add: example_defs session_of_def)

subsection \<open>Filtering\<close>

text \<open>
  C4. With the criterion \<open>all\<close> the filtered view is the cached value itself. With any
  other criterion \<open>x\<close> (in particular pending, completed and expired) and a cached list of
  tasks, the view holds exactly the tasks whose \<open>Status\<close> equals \<open>x\<close> up to case, in
  cached order.
\<close>

theorem filtered_tasks_match_status:
  "(filter_state st = ''all'' \<longrightarrow> getFilteredTasks st = Inr (tasks st))
   \<and> (filter_state st \<noteq> ''all'' \<and> tasks st = JArr ts \<and> (\<forall>t\<in>set ts. is_task t) \<longrightarrow>
        getFilteredTasks st = Inr (JArr (filter (has_status (filter_state st)) ts)))"
  by (simp add: getFilteredTasks_def array_filter_tasks)

text \<open>
  C4 on a list of two tasks, one \<open>Pending\<close> and one \<open>COMPLETED\<close>.
\<close>

theorem filtered_tasks_match_status_witness:
  "getFilteredTasks (initial_state\<lparr>tasks := JArr [milk_task, done_task]\<rparr>) =
     Inr (JArr [milk_task, done_task])
   \<and> getFilteredTasks (initial_state\<lparr>tasks := JArr [milk_task, done_task],
        filter_state := ''completed''\<rparr>) = Inr (JArr [done_task])"
proof -
  have wf: "is_task milk_task \<and> is_task done_task"
    by (simp add: is_task_def example_defs)
  have sel: "filter (has_status ''completed'') [milk_task, done_task] = [done_task]"
    by (simp add: has_status_def equal_ignoring_case_def same_letter_def is_upper_def example_defs)
  have a: "getFilteredTasks (initial_state\<lparr>tasks := JArr [milk_task, done_task]\<rparr>) =
     Inr (JArr [milk_task, done_task])"
    using filtered_tasks_match_status
      [where st = "initial_state\<lparr>tasks := JArr [milk_task, done_task]\<rparr>"]
    by (simp add: initial_state_def)
  have b: "getFilteredTasks (initial_state\<lparr>tasks := JArr [milk_task, done_task],
        filter_state := ''completed''\<rparr>) = Inr (JArr [done_task])"
    using wf sel filtered_tasks_match_status
      [where st = "initial_state\<lparr>tasks := JArr [milk_task, done_task],
          filter_state := ''completed''\<rparr>" and ts = "[milk_task, done_task]"]
    by (simp add: initial_state_def)
  from a b show ?thesis by simp
qed

subsection \<open>Blank descriptions\<close>

text \<open>
  \<open>createTask\<close> of App.js returns at once on an empty or all-white-space description:
  it only calls \<open>preventDefault\<close>. \<open>createTask\<close> of the script returns at once on the
  empty description.
\<close>

lemma createTask_rejects_blank:
  assumes "\<forall>c\<in>set (newTaskDescription (app w)). is_js_whitespace c"
  shows "createTask api rt reload w = (Inr (), w\<lparr>trace := trace w @ [PreventDefault]\<rparr>)"
  using assms by (simp add: createTask_blank js_trim_empty_iff)

lemma page_createTask_rejects_empty:
  assumes "task_description p = ''''"
  shows "page_createTask posted got p = (Inr (), p)"
  using assms by (simp add: page_createTask_def prog_defs page_defs)

text \<open>
  C5 does not hold for \<open>createTask\<close> of the script: its guard is \<open>!description\<close>
  with no \<open>trim\<close>, so a description of three spaces is posted to the API.
\<close>

theorem page_createTask_posts_blank_description:
  "js_trim ''   '' = ''''
   \<and> calls (snd (page_createTask (Inr JNull) (Inr (JArr []))
        \<lparr>task_description = ''   '', task_list = [], calls = []\<rparr>)) =
      [ApiPost ''TodoAppApi'' ''/tasks'' (JObj [(''Description'', JStr ''   '')]),
       ApiGet ''TodoAppApi'' ''/tasks'']"
  by (simp add: page_createTask_def page_fetchTasks_def displayTasks_def js_trim_def
      is_js_whitespace_def prog_defs page_defs)

subsection \<open>Declined deletion\<close>

text \<open>
  C6. When the user declines the prompt, \<open>deleteTask\<close> (in App.js and in the script)
  returns after the prompt: no request is issued and no state changes.
\<close>

theorem declined_delete_does_nothing:
  "deleteTask api taskId False rt reload w =
     (Inr (), w\<lparr>trace := trace w @ [WindowConfirm ''Are you sure you want to delete this task?'']\<rparr>)
   \<and> app (snd (deleteTask api taskId False rt reload w)) = app w
   \<and> page_deleteTask tid False deleted got p =
     (Inr (), p\<lparr>calls := calls p @ [Confirm ''Are you sure you want to delete this task?'']\<rparr>)"
  by (simp add: deleteTask_declined page_deleteTask_def prog_defs page_defs)

subsection \<open>Failures of the HTTP calls\<close>

text \<open>
  C7, as stated, fails on the code: the failure of a non-2xx response does not carry the
  status code. A 404 and a 500 leave the component in the same state.
\<close>

theorem status_code_is_dropped:
  "\<not> response_ok \<lparr>status = 404, json_body = Inr JNull\<rparr>
   \<and> \<not> response_ok \<lparr>status = 500, json_body = Inr JNull\<rparr>
   \<and> fetchTasks example_api (signed_in, responded 404 JNull) initial_world =
     fetchTasks example_api (signed_in, responded 500 JNull) initial_world
   \<and> error (app (snd (fetchTasks example_api (signed_in, responded 404 JNull) initial_world))) =
     JStr ''Failed to fetch tasks''"
  by (simp add: fetchTasks_eq load_result_def response_ok_def responded_def new_Error_def)

text \<open>
  C7 (amended). For a response that is not 2xx every operation fails with a plain
  \<open>Error\<close> whose message is fixed per operation; nothing of the response (status, body)
  reaches the state, which records that message. A failure of the network records the
  message of the error that \<open>fetch\<close> threw, so the two kinds are told apart by the
  message text only.
\<close>

theorem non_2xx_failure_is_generic:
  assumes "\<not> response_ok r" and "\<not> response_ok r'"
  shows "fetchTasks api (s, Inr r) w = fetchTasks api (s, Inr r') w
    \<and> error (app (snd (fetchTasks api (s, Inr r) w))) = JStr ''Failed to fetch tasks''
    \<and> error (app (snd (fetchTasks api (s, Inl e) w))) = message e
    \<and> updateTaskStatus api taskId newStatus (s, Inr r) reload w =
      updateTaskStatus api taskId newStatus (s, Inr r') reload w
    \<and> error (app (snd (updateTaskStatus api taskId newStatus (s, Inr r) reload w))) =
      JStr ''Failed to update task''
    \<and> error (app (snd (updateTaskStatus api taskId newStatus (s, Inl e) reload w))) = message e
    \<and> deleteTask api taskId True (s, Inr r) reload w = deleteTask api taskId True (s, Inr r') reload w
    \<and> error (app (snd (deleteTask api taskId True (s, Inr r) reload w))) =
      JStr ''Failed to delete task''
    \<and> error (app (snd (deleteTask api taskId True (s, Inl e) reload w))) = message e
    \<and> (js_trim (newTaskDescription (app w)) \<noteq> [] \<longrightarrow>
         createTask api (s, Inr r) reload w = createTask api (s, Inr r') reload w
       \<and> error (app (snd (createTask api (s, Inr r) reload w))) = JStr ''Failed to create task''
       \<and> error (app (snd (createTask api (s, Inl e) reload w))) = message e)"
  using assms
  by (simp add: fetchTasks_eq load_result_def new_Error_def updateTaskStatus_eq deleteTask_eq
      createTask_eq Let_def)

text \<open>
  The amended C7 at a 401 and a 503 response, and at a failed connection.
\<close>

theorem non_2xx_failure_is_generic_witness:
  "\<not> response_ok \<lparr>status = 401, json_body = Inr (JObj [(''message'', JStr ''Unauthorized'')])\<rparr>
   \<and> \<not> response_ok \<lparr>status = 503, json_body = Inl (new_Error ''not JSON'')\<rparr>
   \<and> js_trim (newTaskDescription (app milk_world)) \<noteq> []
   \<and> error (app (snd (createTask example_api
        (signed_in, Inr \<lparr>status = 401, json_body = Inr (JObj [(''message'', JStr ''Unauthorized'')])\<rparr>)
        (signed_in, network_down) milk_world))) = JStr ''Failed to create task''
   \<and> error (app (snd (createTask example_api (signed_in, network_down)
        (signed_in, network_down) milk_world))) = JStr ''Failed to fetch''"
proof -
  have h1: "\<not> response_ok \<lparr>status = 401, json_body = Inr (JObj [(''message'', JStr ''Unauthorized'')])\<rparr>"
    by (simp add: response_ok_def)
  have h2: "\<not> response_ok \<lparr>status = 503, json_body = Inl (new_Error ''not JSON'')\<rparr>"
    by (simp add: response_ok_def)
  have h3: "js_trim (newTaskDescription (app milk_world)) \<noteq> []"
    by (simp add: js_trim_def is_js_whitespace_def example_defs)
  note t = non_2xx_failure_is_generic [OF h1 h2, where api = example_api and s = signed_in
        and w = milk_world and reload = "(signed_in, network_down)"
        and e = "JsError ''TypeError'' (JStr ''Failed to fetch'')"
        and taskId = "Some ''42''" and newStatus = "''Completed''"]
  from t h3 have a: "error (app (snd (createTask example_api
        (signed_in, Inr \<lparr>status = 401, json_body = Inr (JObj [(''message'', JStr ''Unauthorized'')])\<rparr>)
        (signed_in, network_down) milk_world))) = JStr ''Failed to create task''"
    by blast
  from t h3 have b: "error (app (snd (createTask example_api
        (signed_in, Inl (JsError ''TypeError'' (JStr ''Failed to fetch'')))
        (signed_in, network_down) milk_world))) =
      message (JsError ''TypeError'' (JStr ''Failed to fetch''))"
    by blast
  show ?thesis
    using h1 h2 h3 a b by (simp add: network_down_def)
qed

subsection \<open>Task identifiers\<close>

text \<open>
  C8. \<open>getTaskId\<close> returns the second \<open>#\<close>-separated component of the sort key
  (for a key with a \<open>#\<close>: the text between the first \<open>#\<close> and the next one or the
  end), and the PUT and DELETE requests of a task card go to \<open>/tasks/\<close> followed by
  that component.
\<close>

theorem task_id_is_second_component:
  "getTaskId (JStr sk) = Inr (js_index (hash_components sk) 1)
   \<and> (CHR ''#'' \<in> set sk \<longrightarrow>
        getTaskId (JStr sk) =
          Inr (Some (takeWhile (\<lambda>c. c \<noteq> CHR ''#'') (tl (dropWhile (\<lambda>c. c \<noteq> CHR ''#'') sk)))))
   \<and> (get_member task ''SK'' = Inr (JStr sk) \<longrightarrow>
        (\<exists>rest. trace (snd (complete_click api task rt reload w)) =
           trace w @ token_trace (fst rt) @
           HttpFetch (interpolate api @ ''/tasks/'' @ interpolate (js_index (hash_components sk) 1))
             ''PUT''
             [(''Authorization'', token_of (fst rt)), (''Content-Type'', JStr ''application/json'')]
             (Some (JObj [(''Status'', JStr ''Completed'')])) # rest)
      \<and> (\<exists>rest. trace (snd (delete_click api task True rt reload w)) =
           trace w @ WindowConfirm ''Are you sure you want to delete this task?'' #
           token_trace (fst rt) @
           HttpFetch (interpolate api @ ''/tasks/'' @ interpolate (js_index (hash_components sk) 1))
             ''DELETE'' [(''Authorization'', token_of (fst rt))] None # rest))"
proof -
  have id: "getTaskId (JStr sk) = Inr (js_index (hash_components sk) 1)"
    by (simp add: js_split_components)
  with second_component [of sk] complete_click_request [of task sk api rt reload w]
    delete_click_request [of task sk api rt reload w]
  show ?thesis by simp
qed

text \<open>
  C8 for the sort key \<open>TASK#42\<close>.
\<close>

theorem task_id_is_second_component_witness:
  "CHR ''#'' \<in> set ''TASK#42''
   \<and> get_member milk_task ''SK'' = Inr (JStr ''TASK#42'')
   \<and> getTaskId (JStr ''TASK#42'') = Inr (Some ''42'')
   \<and> HttpFetch ''https://api.example.com/tasks/42'' ''PUT''
        [(''Authorization'', JStr ''jwt''), (''Content-Type'', JStr ''application/json'')]
        (Some (JObj [(''Status'', JStr ''Completed'')]))
      \<in> set (trace (snd (complete_click example_api milk_task (signed_in, network_down)
            (signed_in, network_down) initial_world)))"
proof -
  have h: "CHR ''#'' \<in> set ''TASK#42''" by simp
  have sk: "get_member milk_task ''SK'' = Inr (JStr ''TASK#42'')"
    by (simp add: milk_task_def)
  note t = task_id_is_second_component [where sk = "''TASK#42''" and task = milk_task
      and api = example_api and rt = "(signed_in, network_down)"
      and reload = "(signed_in, network_down)" and w = initial_world]
  from t h have "getTaskId (JStr ''TASK#42'') =
      Inr (Some (takeWhile (\<lambda>c. c \<noteq> CHR ''#'') (tl (dropWhile (\<lambda>c. c \<noteq> CHR ''#'') ''TASK#42''))))"
    by blast
  then have id: "getTaskId (JStr ''TASK#42'') = Inr (Some ''42'')"
    by (simp del: getTaskId.simps)
  from t have "getTaskId (JStr ''TASK#42'') = Inr (js_index (hash_components ''TASK#42'') 1)"
    by blast
  with id have ix: "js_index (hash_components ''TASK#42'') 1 = Some ''42''"
    by (simp del: getTaskId.simps)
  from t sk obtain rest where
    "trace (snd (complete_click example_api milk_task (signed_in, network_down)
        (signed_in, network_down) initial_world)) =
     trace initial_world @ token_trace (fst (signed_in, network_down)) @
     HttpFetch (interpolate example_api @ ''/tasks/'' @
         interpolate (js_index (hash_components ''TASK#42'') 1)) ''PUT''
       [(''Authorization'', token_of (fst (signed_in, network_down))),
        (''Content-Type'', JStr ''application/json'')]
       (Some (JObj [(''Status'', JStr ''Completed'')])) # rest"
    by blast
  then have "HttpFetch ''https://api.example.com/tasks/42'' ''PUT''
        [(''Authorization'', JStr ''jwt''), (''Content-Type'', JStr ''application/json'')]
        (Some (JObj [(''Status'', JStr ''Completed'')]))
      \<in> set (trace (snd (complete_click example_api milk_task (signed_in, network_down)
            (signed_in, network_down) initial_world)))"
    using ix by (simp add: interpolate_def token_of_def example_api_def signed_in_def)
  with h sk id show ?thesis by (simp del: getTaskId.simps)
qed

text \<open>
  C9. For a sort key without \<open>#\<close>, \<open>getTaskId\<close> returns \<open>undefined\<close>; the click
  handlers do not fail but send their request to the path \<open>/tasks/undefined\<close>.
\<close>

theorem task_id_absent_without_separator:
  assumes "CHR ''#'' \<notin> set sk"
  shows "getTaskId (JStr sk) = Inr None
    \<and> (get_member task ''SK'' = Inr (JStr sk) \<longrightarrow>
         fst (complete_click api task rt reload w) = Inr ()
       \<and> (\<exists>rest. trace (snd (complete_click api task rt reload w)) =
            trace w @ token_trace (fst rt) @
            HttpFetch (interpolate api @ ''/tasks/undefined'') ''PUT''
              [(''Authorization'', token_of (fst rt)), (''Content-Type'', JStr ''application/json'')]
              (Some (JObj [(''Status'', JStr ''Completed'')])) # rest)
       \<and> fst (delete_click api task True rt reload w) = Inr ()
       \<and> (\<exists>rest. trace (snd (delete_click api task True rt reload w)) =
            trace w @ WindowConfirm ''Are you sure you want to delete this task?'' #
            token_trace (fst rt) @
            HttpFetch (interpolate api @ ''/tasks/undefined'') ''DELETE''
              [(''Authorization'', token_of (fst rt))] None # rest))"
proof -
  have ix: "js_index (hash_components sk) 1 = None"
    using assms by (rule no_second_component)
  have id: "getTaskId (JStr sk) = Inr None"
    using ix by (simp add: js_split_components)
  with ix complete_click_request [of task sk api rt reload w]
    delete_click_request [of task sk api rt reload w]
  show ?thesis by (simp add: interpolate_def del: getTaskId.simps)
qed

text \<open>
  C9 for the sort key \<open>TASK42\<close>.
\<close>

theorem task_id_absent_without_separator_witness:
  "CHR ''#'' \<notin> set ''TASK42''
   \<and> get_member unkeyed_task ''SK'' = Inr (JStr ''TASK42'')
   \<and> getTaskId (JStr ''TASK42'') = Inr None
   \<and> fst (delete_click example_api unkeyed_task True (signed_in, network_down)
        (signed_in, network_down) initial_world) = Inr ()
   \<and> HttpFetch ''https://api.example.com/tasks/undefined'' ''DELETE''
        [(''Authorization'', JStr ''jwt'')] None
      \<in> set (trace (snd (delete_click example_api unkeyed_task True (signed_in, network_down)
            (signed_in, network_down) initial_world)))"
proof -
  have h: "CHR ''#'' \<notin> set ''TASK42''" by simp
  have sk: "get_member unkeyed_task ''SK'' = Inr (JStr ''TASK42'')"
    by (simp add: unkeyed_task_def)
  note t = task_id_absent_without_separator [OF h, where task = unkeyed_task
      and api = example_api and rt = "(signed_in, network_down)"
      and reload = "(signed_in, network_down)" and w = initial_world]
  from t have id: "getTaskId (JStr ''TASK42'') = Inr None"
    by blast
  from t sk have ok: "fst (delete_click example_api unkeyed_task True (signed_in, network_down)
        (signed_in, network_down) initial_world) = Inr ()"
    by blast
  from t sk obtain rest where
    "trace (snd (delete_click example_api unkeyed_task True (signed_in, network_down)
        (signed_in, network_down) initial_world)) =
     trace initial_world @ WindowConfirm ''Are you sure you want to delete this task?'' #
     token_trace (fst (signed_in, network_down)) @
     HttpFetch (interpolate example_api @ ''/tasks/undefined'') ''DELETE''
       [(''Authorization'', token_of (fst (signed_in, network_down)))] None # rest"
    by blast
  then have "HttpFetch ''https://api.example.com/tasks/undefined'' ''DELETE''
        [(''Authorization'', JStr ''jwt'')] None
      \<in> set (trace (snd (delete_click example_api unkeyed_task True (signed_in, network_down)
            (signed_in, network_down) initial_world)))"
    by (simp add: interpolate_def token_of_def example_api_def signed_in_def)
  with h sk id ok show ?thesis by (simp del: getTaskId.simps)
qed

subsection \<open>Loading a body without Items\<close>

text \<open>
  C10, as stated, fails on the code for one body that lacks \<open>Items\<close>: the JSON value
  \<open>null\<close>. It has no properties at all, so reading \<open>data.Items\<close> throws inside the
  \<open>try\<close> block: the load takes the failure path, the cached list stays and an error
  message is set.
\<close>

theorem null_body_keeps_cache:
  "response_ok \<lparr>status = 200, json_body = Inr JNull\<rparr>
   \<and> get_member JNull ''Items'' = Inl (cannot_read ''null'' ''Items'')
   \<and> tasks (app (snd (fetchTasks example_api (signed_in, responded 200 JNull)
        (initial_world\<lparr>app := initial_state\<lparr>tasks := JArr [milk_task]\<rparr>\<rparr>)))) = JArr [milk_task]
   \<and> error (app (snd (fetchTasks example_api (signed_in, responded 200 JNull)
        (initial_world\<lparr>app := initial_state\<lparr>tasks := JArr [milk_task]\<rparr>\<rparr>)))) =
      message (cannot_read ''null'' ''Items'')
   \<and> truthy (error (app (snd (fetchTasks example_api (signed_in, responded 200 JNull)
        (initial_world\<lparr>app := initial_state\<lparr>tasks := JArr [milk_task]\<rparr>\<rparr>)))))"
  by (simp add: fetchTasks_eq load_result_def response_ok_def responded_def cannot_read_def
      initial_world_def initial_state_def)

text \<open>
  C10 (amended). When a load gets a 2xx response whose JSON body is not \<open>null\<close> and has
  no \<open>Items\<close> (reading it yields \<open>undefined\<close>), the cached list becomes the empty
  list, with no error message and the loading flag off. When the body is \<open>null\<close>, the
  load fails instead: the cached list is kept and the error message is that of the
  TypeError.
\<close>

theorem load_without_items_clears_cache:
  assumes "response_ok r" and "json_body r = Inr data"
  shows "(get_member data ''Items'' = Inr JUndefined \<longrightarrow>
           fst (fetchTasks api (s, Inr r) w) = Inr ()
         \<and> tasks (app (snd (fetchTasks api (s, Inr r) w))) = JArr []
         \<and> error (app (snd (fetchTasks api (s, Inr r) w))) = JStr ''''
         \<and> loading (app (snd (fetchTasks api (s, Inr r) w))) = False)
    \<and> (data = JNull \<longrightarrow>
           fst (fetchTasks api (s, Inr r) w) = Inr ()
         \<and> tasks (app (snd (fetchTasks api (s, Inr r) w))) = tasks (app w)
         \<and> error (app (snd (fetchTasks api (s, Inr r) w))) = message (cannot_read ''null'' ''Items'')
         \<and> loading (app (snd (fetchTasks api (s, Inr r) w))) = False)"
  using assms by (simp add: fetchTasks_eq load_result_def js_or_def)

text \<open>
  The amended C10 for the body \<open>{"Count": 0}\<close> with one cached task, and for the body
  \<open>null\<close> of a 204 with another.
\<close>

theorem load_without_items_clears_cache_witness:
  "response_ok \<lparr>status = 200, json_body = Inr (JObj [(''Count'', JNum 0)])\<rparr>
   \<and> get_member (JObj [(''Count'', JNum 0)]) ''Items'' = Inr JUndefined
   \<and> tasks (app (snd (fetchTasks example_api (signed_in, responded 200 (JObj [(''Count'', JNum 0)]))
        (initial_world\<lparr>app := initial_state\<lparr>tasks := JArr [milk_task]\<rparr>\<rparr>)))) = JArr []
   \<and> response_ok \<lparr>status = 204, json_body = Inr JNull\<rparr>
   \<and> loading (app (snd (fetchTasks example_api (signed_in, responded 204 JNull)
        (initial_world\<lparr>app := initial_state\<lparr>tasks := JArr [done_task], loading := True\<rparr>\<rparr>)))) = False
   \<and> tasks (app (snd (fetchTasks example_api (signed_in, responded 204 JNull)
        (initial_world\<lparr>app := initial_state\<lparr>tasks := JArr [done_task], loading := True\<rparr>\<rparr>)))) =
      JArr [done_task]"
proof -
  have ok: "response_ok \<lparr>status = 200, json_body = Inr (JObj [(''Count'', JNum 0)])\<rparr>"
    by (simp add: response_ok_def)
  have no_items: "get_member (JObj [(''Count'', JNum 0)]) ''Items'' = Inr JUndefined"
    by simp
  have ok': "response_ok \<lparr>status = 204, json_body = Inr JNull\<rparr>"
    by (simp add: response_ok_def)
  from no_items
    load_without_items_clears_cache [OF ok, where data = "JObj [(''Count'', JNum 0)]"
      and api = example_api and s = signed_in
      and w = "initial_world\<lparr>app := initial_state\<lparr>tasks := JArr [milk_task]\<rparr>\<rparr>"]
  have a: "tasks (app (snd (fetchTasks example_api
        (signed_in, Inr \<lparr>status = 200, json_body = Inr (JObj [(''Count'', JNum 0)])\<rparr>)
        (initial_world\<lparr>app := initial_state\<lparr>tasks := JArr [milk_task]\<rparr>\<rparr>)))) = JArr []"
    by simp
  from load_without_items_clears_cache [OF ok', where data = JNull
      and api = example_api and s = signed_in
      and w = "initial_world\<lparr>app := initial_state\<lparr>tasks := JArr [done_task], loading := True\<rparr>\<rparr>"]
  have b: "loading (app (snd (fetchTasks example_api
        (signed_in, Inr \<lparr>status = 204, json_body = Inr JNull\<rparr>)
        (initial_world\<lparr>app := initial_state\<lparr>tasks := JArr [done_task], loading := True\<rparr>\<rparr>)))) = False
    \<and> tasks (app (snd (fetchTasks example_api
        (signed_in, Inr \<lparr>status = 204, json_body = Inr JNull\<rparr>)
        (initial_world\<lparr>app := initial_state\<lparr>tasks := JArr [done_task], loading := True\<rparr>\<rparr>)))) =
      tasks (app (initial_world\<lparr>app := initial_state\<lparr>tasks := JArr [done_task], loading := True\<rparr>\<rparr>))"
    by simp
  from ok no_items ok' a b show ?thesis
    by (simp add: responded_def)
qed

end
